theory Spec2Isabelle
  imports Complex_Main
begin

section \<open>Data model\<close>

text \<open>
  The views and serializers of \<^verbatim>\<open>src/exams\<close> work on the rows of a relational store.
  Each model is a record holding the fields the code reads; a foreign key is the id of
  the row it points to. Tables are lists of rows in storage order. Model instances are
  compared by primary key, as Django does.
\<close>

record user =
  user_id :: nat
  user_type :: string
  is_authenticated :: bool

record course =
  course_id :: nat
  instructor :: nat
  students :: "nat set"

record exam =
  exam_id :: nat
  exam_course :: nat
  title :: string
  description :: string
  duration :: nat
  total_marks :: int
  passing_marks :: int
  exam_start_time :: nat
  exam_end_time :: nat
  is_published :: bool

record question =
  question_id :: nat
  question_exam :: nat
  question_text :: string
  question_type :: string
  marks :: int
  question_order :: int

record choice =
  choice_id :: nat
  choice_question :: nat
  choice_text :: string
  is_correct :: bool

record attempt =
  attempt_id :: nat
  attempt_exam :: nat
  student :: nat
  start_time :: nat
  end_time :: "nat option"
  score :: "int option"
  is_completed :: bool
  submitted_at :: "nat option"

record db =
  courses :: "course list"
  exams :: "exam list"
  questions :: "question list"
  choices :: "choice list"
  attempts :: "attempt list"

text \<open>
  Response bodies are JSON values. A Python float is represented by the rational number
  it approximates; a Python \<^verbatim>\<open>None\<close> is \<open>JNull\<close>.
\<close>

datatype json =
    JNull
  | JBool bool
  | JInt int
  | JFloat rat
  | JStr string
  | JList "json list"
  | JObj "(string \<times> json) list"

text \<open>
  A serializer's \<^verbatim>\<open>ValidationError\<close> is either the non-field error raised by
  \<^verbatim>\<open>validate\<close> with its message, or the field error of the primary-key fields that
  did not resolve to a row.
\<close>

datatype detail = NonField string | InvalidPk "nat list"

datatype exn =
    PermissionDenied string
  | AttributeError string
  | ValidationError detail
  | NotImplementedError string
  | DoesNotExist
  | Http404
  | IntegrityError

text \<open>
  \<^verbatim>\<open>PermissionDenied\<close> is the exception that \<^verbatim>\<open>views.py\<close> imports from
  \<^verbatim>\<open>rest_framework.exceptions\<close> and raises by its bare name; it carries its message.
  Three views write \<^verbatim>\<open>permissions.PermissionDenied\<close> instead, where \<^verbatim>\<open>permissions\<close> is
  the module \<^verbatim>\<open>rest_framework.permissions\<close>. That module has no attribute of this name,
  so evaluating the expression raises \<^verbatim>\<open>AttributeError\<close> before any exception object is
  built; \<open>AttributeError\<close> carries the name of the missing attribute.

  A view either returns a \<^verbatim>\<open>Response(body, status)\<close> or raises.
\<close>

datatype outcome = Response json nat | Raise exn

section \<open>Queries\<close>

definition get_course :: "db \<Rightarrow> nat \<Rightarrow> course option" where
  "get_course st pk = find (\<lambda>c. course_id c = pk) (courses st)"

definition get_exam :: "db \<Rightarrow> nat \<Rightarrow> exam option" where
  "get_exam st pk = find (\<lambda>e. exam_id e = pk) (exams st)"

definition get_question :: "db \<Rightarrow> nat \<Rightarrow> question option" where
  "get_question st pk = find (\<lambda>q. question_id q = pk) (questions st)"

definition get_attempt :: "db \<Rightarrow> nat \<Rightarrow> attempt option" where
  "get_attempt st pk = find (\<lambda>a. attempt_id a = pk) (attempts st)"

text \<open>\<^verbatim>\<open>exam.questions.all()\<close> and \<^verbatim>\<open>question.choices.all()\<close>: the reverse relations.\<close>

definition exam_questions :: "db \<Rightarrow> nat \<Rightarrow> question list" where
  "exam_questions st e = filter (\<lambda>q. question_exam q = e) (questions st)"

definition question_choices :: "db \<Rightarrow> nat \<Rightarrow> choice list" where
  "question_choices st q = filter (\<lambda>c. choice_question c = q) (choices st)"

section \<open>Exam submission\<close>

text \<open>
  The request body of a submission is a list of answers, each a question primary key and
  an answer text (\<^verbatim>\<open>AnswerSerializer\<close>, fields \<^verbatim>\<open>question\<close> and \<^verbatim>\<open>answer_text\<close>).
  Field-level deserialisation resolves every primary key to its question row and fails
  with a validation error naming the keys that have no row.
\<close>

definition to_internal_value :: "db \<Rightarrow> (nat \<times> string) list \<Rightarrow> exn + (question \<times> string) list" where
  "to_internal_value st data =
     (case those (map (\<lambda>(pk, t). map_option (\<lambda>q. (q, t)) (get_question st pk)) data) of
        None \<Rightarrow> Inl (ValidationError (InvalidPk
                  (map fst (filter (\<lambda>(pk, t). get_question st pk = None) data))))
      | Some v \<Rightarrow> Inr v)"

text \<open>
  \<^verbatim>\<open>ExamSubmissionSerializer.validate\<close>: both sides of the comparison are Python sets of
  question ids.
\<close>

definition ExamSubmissionSerializer_validate ::
    "db \<Rightarrow> attempt \<Rightarrow> (question \<times> string) list \<Rightarrow> exn + (question \<times> string) list" where
  "ExamSubmissionSerializer_validate st att data =
     (let answered_questions = set (map (\<lambda>(q, t). question_id q) data);
          exam_questions' = set (map question_id (exam_questions st (attempt_exam att)))
      in if answered_questions \<noteq> exam_questions'
         then Inl (ValidationError (NonField ''All questions must be answered.''))
         else Inr data)"

text \<open>\<^verbatim>\<open>serializer.is_valid(raise_exception=True)\<close>: the fields first, then \<^verbatim>\<open>validate\<close>.\<close>

definition is_valid :: "db \<Rightarrow> attempt \<Rightarrow> (nat \<times> string) list \<Rightarrow> exn + (question \<times> string) list" where
  "is_valid st att data =
     (case to_internal_value st data of
        Inl e \<Rightarrow> Inl e
      | Inr v \<Rightarrow> ExamSubmissionSerializer_validate st att v)"

text \<open>
  \<^verbatim>\<open>ExamSubmissionView\<close> does not override \<^verbatim>\<open>perform_create\<close>, so the inherited one
  runs: it calls \<^verbatim>\<open>serializer.save()\<close>. \<^verbatim>\<open>ExamSubmissionSerializer\<close> is a plain
  \<^verbatim>\<open>serializers.Serializer\<close> that declares no \<^verbatim>\<open>create\<close> method, so \<^verbatim>\<open>save\<close> ends
  in the base class's \<^verbatim>\<open>create\<close>, which raises \<^verbatim>\<open>NotImplementedError\<close>. No row is
  written.
\<close>

definition serializer_save :: "db \<Rightarrow> (question \<times> string) list \<Rightarrow> exn + db" where
  "serializer_save st validated_data = Inl (NotImplementedError ''`create()` must be implemented.'')"

definition perform_create :: "db \<Rightarrow> (question \<times> string) list \<Rightarrow> exn + db" where
  "perform_create st validated_data = serializer_save st validated_data"

definition json_of_score :: "int option \<Rightarrow> json" where
  "json_of_score s = (case s of None \<Rightarrow> JNull | Some n \<Rightarrow> JInt n)"

text \<open>
  \<^verbatim>\<open>ExamSubmissionView.create\<close>. The attempt is read with \<^verbatim>\<open>objects.get\<close>, which raises
  \<^verbatim>\<open>DoesNotExist\<close> when there is no such row. The function returns the outcome and the
  store after the request.
\<close>

definition ExamSubmissionView_create ::
    "db \<Rightarrow> user \<Rightarrow> nat \<Rightarrow> (nat \<times> string) list \<Rightarrow> outcome \<times> db" where
  "ExamSubmissionView_create st request_user pk data =
     (case get_attempt st pk of
        None \<Rightarrow> (Raise DoesNotExist, st)
      | Some att \<Rightarrow>
          if student att \<noteq> user_id request_user
          then (Response (JObj [(''detail'', JStr ''You can only submit your own exam attempts.'')]) 403, st)
          else if is_completed att
          then (Response (JObj [(''detail'', JStr ''This exam attempt has already been completed.'')]) 400, st)
          else
            (case is_valid st att data of
               Inl e \<Rightarrow> (Raise e, st)
             | Inr validated_data \<Rightarrow>
                 (case perform_create st validated_data of
                    Inl e \<Rightarrow> (Raise e, st)
                  | Inr st' \<Rightarrow>
                      (case get_attempt st' pk of
                         None \<Rightarrow> (Raise DoesNotExist, st')
                       | Some att' \<Rightarrow>
                           (case get_exam st' (attempt_exam att') of
                              None \<Rightarrow> (Raise DoesNotExist, st')
                            | Some ex \<Rightarrow>
                                (Response (JObj
                                   [(''score'', json_of_score (score att')),
                                    (''totalQuestions'', JInt (int (length (exam_questions st' (exam_id ex))))),
                                    (''passingScore'', JInt (passing_marks ex)),
                                    (''attemptId'', JInt (int (attempt_id att')))]) 201, st'))))))"

section \<open>Starting an attempt\<close>

text \<open>The primary key the store gives a new row: one more than the largest key in use.\<close>

definition next_id :: "nat list \<Rightarrow> nat" where
  "next_id ids = Suc (fold max ids 0)"

text \<open>
  Modelled from the spec: the field defaults of \<^verbatim>\<open>ExamAttempt\<close>, whose model class is
  declared in \<^verbatim>\<open>exams/models.py\<close> (not among the sources). The spec has a new attempt
  start at the current time with no score and not completed. The serializer makes
  \<^verbatim>\<open>student\<close>, \<^verbatim>\<open>score\<close> and \<^verbatim>\<open>is_completed\<close> read-only, so the request body
  cannot set them; \<^verbatim>\<open>student\<close> and \<^verbatim>\<open>exam\<close> come from the arguments of \<^verbatim>\<open>save\<close>.
  \<^verbatim>\<open>end_time\<close> is a writable field of \<^verbatim>\<open>ExamAttemptSerializer\<close>: the new row holds the
  value of the request body, \<open>body_end_time\<close>, which is \<open>None\<close> when the body gives none.
\<close>

definition new_attempt :: "db \<Rightarrow> user \<Rightarrow> exam \<Rightarrow> nat \<Rightarrow> nat option \<Rightarrow> attempt" where
  "new_attempt st request_user ex now body_end_time =
     \<lparr>attempt_id = next_id (map attempt_id (attempts st)),
      attempt_exam = exam_id ex,
      student = user_id request_user,
      start_time = now,
      end_time = body_end_time,
      score = None,
      is_completed = False,
      submitted_at = None\<rparr>"

text \<open>
  \<^verbatim>\<open>ExamAttemptView.perform_create\<close>; \<open>pk\<close> is the exam id of the URL. The branch for
  a user who is not enrolled is \<^verbatim>\<open>raise permissions.PermissionDenied(...)\<close>, which ends in
  the \<^verbatim>\<open>AttributeError\<close> of the attribute lookup.
\<close>

definition ExamAttemptView_perform_create ::
    "db \<Rightarrow> user \<Rightarrow> nat \<Rightarrow> nat \<Rightarrow> nat option \<Rightarrow> exn + db" where
  "ExamAttemptView_perform_create st request_user pk now body_end_time =
     (case get_exam st pk of
        None \<Rightarrow> Inl DoesNotExist
      | Some ex \<Rightarrow>
          (case get_course st (exam_course ex) of
             None \<Rightarrow> Inl DoesNotExist
           | Some c \<Rightarrow>
               if user_id request_user \<in> students c
               then Inr (st\<lparr>attempts := attempts st @
                           [new_attempt st request_user ex now body_end_time]\<rparr>)
               else Inl (AttributeError ''PermissionDenied'')))"

section \<open>Analytics\<close>

text \<open>\<^verbatim>\<open>ExamAttempt.objects.filter(exam=exam)\<close> and \<^verbatim>\<open>.filter(submitted_at__isnull=False)\<close>.\<close>

definition exam_attempts :: "db \<Rightarrow> exam \<Rightarrow> attempt list" where
  "exam_attempts st ex = filter (\<lambda>a. attempt_exam a = exam_id ex) (attempts st)"

definition submitted :: "attempt list \<Rightarrow> attempt list" where
  "submitted atts = filter (\<lambda>a. submitted_at a \<noteq> None) atts"

text \<open>\<^verbatim>\<open>score__gte\<close>: a null score matches no comparison.\<close>

definition score_gte :: "int \<Rightarrow> attempt \<Rightarrow> bool" where
  "score_gte m a = (case score a of None \<Rightarrow> False | Some s \<Rightarrow> m \<le> s)"

text \<open>\<^verbatim>\<open>Avg('score')\<close>: the mean of the scores that are not null, null when there is none.\<close>

definition Avg :: "attempt list \<Rightarrow> rat option" where
  "Avg atts =
     (let vs = List.map_filter score atts
      in if vs = [] then None else Some (of_int (sum_list vs) / of_nat (length vs)))"

text \<open>\<^verbatim>\<open>... or 0\<close>: a null average and an average of zero both give the integer 0.\<close>

definition average_score :: "attempt list \<Rightarrow> json" where
  "average_score atts =
     (case Avg (submitted atts) of
        None \<Rightarrow> JInt 0
      | Some v \<Rightarrow> if v = 0 then JInt 0 else JFloat v)"

text \<open>The expression of the \<^verbatim>\<open>passing_rate\<close> key of the response.\<close>

definition passing_rate :: "exam \<Rightarrow> attempt list \<Rightarrow> json" where
  "passing_rate ex atts =
     (let completed_attempts = length (submitted atts)
      in if completed_attempts > 0
         then JFloat (of_nat (length (filter (score_gte (passing_marks ex)) atts))
                        / of_nat completed_attempts * 100)
         else JInt 0)"

text \<open>
  The passing rate in the words of the specification: completed attempts with a score of
  at least the passing marks, over completed attempts, times 100.
\<close>

definition passing_rate_spec :: "exam \<Rightarrow> attempt list \<Rightarrow> json" where
  "passing_rate_spec ex atts =
     (let completed = submitted atts
      in if length completed > 0
         then JFloat (of_nat (length (filter (score_gte (passing_marks ex)) completed))
                        / of_nat (length completed) * 100)
         else JInt 0)"

definition analytics :: "exam \<Rightarrow> attempt list \<Rightarrow> json" where
  "analytics ex atts =
     JObj [(''total_attempts'', JInt (int (length atts))),
           (''completed_attempts'', JInt (int (length (submitted atts)))),
           (''average_score'', average_score atts),
           (''passing_rate'', passing_rate ex atts)]"

text \<open>
  \<^verbatim>\<open>StaffExamAnalyticsView.get\<close>. Python's \<^verbatim>\<open>or\<close> evaluates its right operand only when
  the left one is false, so the course is read only for a teacher.
\<close>

definition StaffExamAnalyticsView_get :: "db \<Rightarrow> user \<Rightarrow> nat \<Rightarrow> outcome" where
  "StaffExamAnalyticsView_get st request_user pk =
     (case get_exam st pk of
        None \<Rightarrow> Raise Http404
      | Some ex \<Rightarrow>
          if user_type request_user \<noteq> ''teacher''
          then Response (JObj [(''detail'', JStr ''Not authorized'')]) 403
          else
            (case get_course st (exam_course ex) of
               None \<Rightarrow> Raise DoesNotExist
             | Some c \<Rightarrow>
                 if instructor c \<noteq> user_id request_user
                 then Response (JObj [(''detail'', JStr ''Not authorized'')]) 403
                 else Response (analytics ex (exam_attempts st ex)) 200))"

section \<open>Creating and changing exams\<close>

text \<open>
  The validated data of \<^verbatim>\<open>ExamCreateSerializer\<close>: the exam's fields, the course already
  resolved to its row.
\<close>

record exam_data =
  vd_title :: string
  vd_description :: string
  vd_duration :: nat
  vd_total_marks :: int
  vd_passing_marks :: int
  vd_start_time :: nat
  vd_end_time :: nat
  vd_is_published :: bool
  vd_course :: course

definition exam_of :: "nat \<Rightarrow> nat \<Rightarrow> exam_data \<Rightarrow> exam" where
  "exam_of eid cid v =
     \<lparr>exam_id = eid, exam_course = cid, title = vd_title v, description = vd_description v,
      duration = vd_duration v, total_marks = vd_total_marks v,
      passing_marks = vd_passing_marks v, exam_start_time = vd_start_time v,
      exam_end_time = vd_end_time v, is_published = vd_is_published v\<rparr>"

text \<open>\<^verbatim>\<open>serializer.save(...)\<close> of a model serializer without an instance: a new row.\<close>

definition save_exam :: "db \<Rightarrow> nat \<Rightarrow> exam_data \<Rightarrow> db" where
  "save_exam st cid v = st\<lparr>exams := exams st @ [exam_of (next_id (map exam_id (exams st))) cid v]\<rparr>"

text \<open>
  \<^verbatim>\<open>ExamListView.perform_create\<close>. Its refusal is written
  \<^verbatim>\<open>raise permissions.PermissionDenied(...)\<close> as well.
\<close>

definition ExamListView_perform_create :: "db \<Rightarrow> user \<Rightarrow> exam_data \<Rightarrow> exn + db" where
  "ExamListView_perform_create st request_user v =
     (if instructor (vd_course v) \<noteq> user_id request_user
      then Inl (AttributeError ''PermissionDenied'')
      else Inr (save_exam st (course_id (vd_course v)) v))"

text \<open>
  \<^verbatim>\<open>ExamCreateView.perform_create\<close>; \<open>cid\<close> is the \<^verbatim>\<open>course_id\<close> of the URL, which
  \<^verbatim>\<open>save\<close> writes into the new row. The store refuses a course id without a row.
\<close>

definition ExamCreateView_perform_create :: "db \<Rightarrow> user \<Rightarrow> nat \<Rightarrow> exam_data \<Rightarrow> exn + db" where
  "ExamCreateView_perform_create st request_user cid v =
     (if user_type request_user \<noteq> ''teacher''
      then Inl (PermissionDenied ''Only teachers can create exams.'')
      else if get_course st cid = None then Inl IntegrityError
      else Inr (save_exam st cid v))"

text \<open>
  \<^verbatim>\<open>StaffExamCreateView.perform_create\<close>; \<open>course\<close> is \<^verbatim>\<open>request.data.get('course')\<close>,
  and \<^verbatim>\<open>not course_id\<close> holds for a missing key and for 0.
\<close>

definition StaffExamCreateView_perform_create ::
    "db \<Rightarrow> user \<Rightarrow> nat option \<Rightarrow> exam_data \<Rightarrow> exn + db" where
  "StaffExamCreateView_perform_create st request_user course v =
     (if user_type request_user \<noteq> ''teacher''
      then Inl (PermissionDenied ''Only teachers can create exams.'')
      else
        (case course of
           None \<Rightarrow> Inl (PermissionDenied ''Course ID is required.'')
         | Some cid \<Rightarrow>
             if cid = 0 then Inl (PermissionDenied ''Course ID is required.'')
             else
               (case get_course st cid of
                  None \<Rightarrow> Inl (PermissionDenied ''Course not found.'')
                | Some c \<Rightarrow>
                    if instructor c \<noteq> user_id request_user
                    then Inl (PermissionDenied ''You can only create exams for your own courses.'')
                    else Inr (save_exam st (course_id c) v))))"

text \<open>
  The predicate of the specification: a user manages the exams of a course when the user
  is a teacher and the instructor of that course.
\<close>

definition canManageExam_spec :: "user \<Rightarrow> course \<Rightarrow> bool" where
  "canManageExam_spec u c = (user_type u = ''teacher'' \<and> instructor c = user_id u)"

section \<open>Listing and retrieving exams\<close>

text \<open>The lookups \<^verbatim>\<open>course__instructor=user\<close> and \<^verbatim>\<open>course__students=user\<close>.\<close>

definition course_instructor_is :: "db \<Rightarrow> user \<Rightarrow> exam \<Rightarrow> bool" where
  "course_instructor_is st u e =
     (case get_course st (exam_course e) of None \<Rightarrow> False | Some c \<Rightarrow> instructor c = user_id u)"

definition course_students_has :: "db \<Rightarrow> user \<Rightarrow> exam \<Rightarrow> bool" where
  "course_students_has st u e =
     (case get_course st (exam_course e) of None \<Rightarrow> False | Some c \<Rightarrow> user_id u \<in> students c)"

text \<open>\<^verbatim>\<open>ExamListView.get_queryset\<close>; a user row always has a \<^verbatim>\<open>user_type\<close>.\<close>

definition ExamListView_get_queryset :: "db \<Rightarrow> user \<Rightarrow> exam list" where
  "ExamListView_get_queryset st u =
     (if \<not> is_authenticated u then []
      else if user_type u = ''teacher'' then filter (course_instructor_is st u) (exams st)
      else if user_type u = ''student'' then filter (course_students_has st u) (exams st)
      else [])"

text \<open>\<^verbatim>\<open>ExamDetailView.get_queryset\<close>.\<close>

definition ExamDetailView_get_queryset :: "db \<Rightarrow> user \<Rightarrow> exam list" where
  "ExamDetailView_get_queryset st u =
     (if user_type u = ''teacher'' then filter (course_instructor_is st u) (exams st)
      else if user_type u = ''student'' then filter (course_students_has st u) (exams st)
      else [])"

text \<open>
  \<^verbatim>\<open>ChoiceSerializer\<close>, \<^verbatim>\<open>QuestionSerializer\<close> and \<^verbatim>\<open>ExamSerializer\<close>, field by field.
  \<^verbatim>\<open>ExamSerializer\<close> takes all fields of the model; they are the ones
  \<^verbatim>\<open>ExamCreateSerializer\<close> names, and times are numbers here.
\<close>

definition ChoiceSerializer :: "choice \<Rightarrow> json" where
  "ChoiceSerializer c =
     JObj [(''id'', JInt (int (choice_id c))),
           (''choice_text'', JStr (choice_text c)),
           (''is_correct'', JBool (is_correct c))]"

definition QuestionSerializer :: "db \<Rightarrow> question \<Rightarrow> json" where
  "QuestionSerializer st q =
     JObj [(''id'', JInt (int (question_id q))),
           (''question_text'', JStr (question_text q)),
           (''question_type'', JStr (question_type q)),
           (''marks'', JInt (marks q)),
           (''order'', JInt (question_order q)),
           (''choices'', JList (map ChoiceSerializer (question_choices st (question_id q))))]"

text \<open>
  \<^verbatim>\<open>CourseSerializer\<close> comes from another application of the project; it is the
  parameter \<open>cs\<close>.
\<close>

definition ExamSerializer :: "(course \<Rightarrow> json) \<Rightarrow> db \<Rightarrow> exam \<Rightarrow> json" where
  "ExamSerializer cs st e =
     JObj [(''id'', JInt (int (exam_id e))),
           (''course'', (case get_course st (exam_course e) of None \<Rightarrow> JNull | Some c \<Rightarrow> cs c)),
           (''questions'', JList (map (QuestionSerializer st) (exam_questions st (exam_id e)))),
           (''title'', JStr (title e)),
           (''description'', JStr (description e)),
           (''duration'', JInt (int (duration e))),
           (''total_marks'', JInt (total_marks e)),
           (''passing_marks'', JInt (passing_marks e)),
           (''start_time'', JInt (int (exam_start_time e))),
           (''end_time'', JInt (int (exam_end_time e))),
           (''is_published'', JBool (is_published e))]"

text \<open>The \<^verbatim>\<open>GET\<close> handlers of the two views: the list, and one exam of the queryset.\<close>

definition ExamListView_list :: "(course \<Rightarrow> json) \<Rightarrow> db \<Rightarrow> user \<Rightarrow> outcome" where
  "ExamListView_list cs st u =
     Response (JList (map (ExamSerializer cs st) (ExamListView_get_queryset st u))) 200"

definition ExamDetailView_retrieve :: "(course \<Rightarrow> json) \<Rightarrow> db \<Rightarrow> user \<Rightarrow> nat \<Rightarrow> outcome" where
  "ExamDetailView_retrieve cs st u pk =
     (case find (\<lambda>e. exam_id e = pk) (ExamDetailView_get_queryset st u) of
        None \<Rightarrow> Raise Http404
      | Some e \<Rightarrow> Response (ExamSerializer cs st e) 200)"

text \<open>The value of a key of a JSON object.\<close>

definition json_get :: "string \<Rightarrow> json \<Rightarrow> json option" where
  "json_get k j = (case j of JObj kvs \<Rightarrow> map_of kvs k | _ \<Rightarrow> None)"

section \<open>An example store\<close>

definition teacher1 :: user where
  "teacher1 = \<lparr>user_id = 100, user_type = ''teacher'', is_authenticated = True\<rparr>"

definition teacher2 :: user where
  "teacher2 = \<lparr>user_id = 200, user_type = ''teacher'', is_authenticated = True\<rparr>"

definition student1 :: user where
  "student1 = \<lparr>user_id = 10, user_type = ''student'', is_authenticated = True\<rparr>"

definition student2 :: user where
  "student2 = \<lparr>user_id = 11, user_type = ''student'', is_authenticated = True\<rparr>"

definition outsider :: user where
  "outsider = \<lparr>user_id = 12, user_type = ''student'', is_authenticated = True\<rparr>"

definition course1 :: course where
  "course1 = \<lparr>course_id = 1, instructor = 100, students = {10, 11}\<rparr>"

definition exam1 :: exam where
  "exam1 = \<lparr>exam_id = 1, exam_course = 1, title = ''Midterm'', description = ''First exam'',
            duration = 60, total_marks = 100, passing_marks = 50, exam_start_time = 0,
            exam_end_time = 1000, is_published = True\<rparr>"

definition exam2 :: exam where
  "exam2 = \<lparr>exam_id = 2, exam_course = 1, title = ''Final'', description = ''Second exam'',
            duration = 90, total_marks = 100, passing_marks = 50, exam_start_time = 2000,
            exam_end_time = 3000, is_published = False\<rparr>"

definition q1 :: question where
  "q1 = \<lparr>question_id = 1, question_exam = 1, question_text = ''One'', question_type = ''single'',
         marks = 5, question_order = 1\<rparr>"

definition q2 :: question where
  "q2 = \<lparr>question_id = 2, question_exam = 1, question_text = ''Two'', question_type = ''single'',
         marks = 10, question_order = 2\<rparr>"

definition q7 :: question where
  "q7 = \<lparr>question_id = 7, question_exam = 2, question_text = ''Seven'', question_type = ''text'',
         marks = 3, question_order = 1\<rparr>"

definition ch1 :: choice where
  "ch1 = \<lparr>choice_id = 1, choice_question = 1, choice_text = ''yes'', is_correct = True\<rparr>"

definition ch2 :: choice where
  "ch2 = \<lparr>choice_id = 2, choice_question = 1, choice_text = ''no'', is_correct = False\<rparr>"

text \<open>
  Three attempts at exam 1: one in progress, one submitted with score 10, and one that
  holds a score of 80 although it was never submitted.
\<close>

definition att1 :: attempt where
  "att1 = \<lparr>attempt_id = 1, attempt_exam = 1, student = 10, start_time = 5, end_time = None,
           score = None, is_completed = False, submitted_at = None\<rparr>"

definition att2 :: attempt where
  "att2 = \<lparr>attempt_id = 2, attempt_exam = 1, student = 11, start_time = 5, end_time = Some 9,
           score = Some 10, is_completed = True, submitted_at = Some 9\<rparr>"

definition att3 :: attempt where
  "att3 = \<lparr>attempt_id = 3, attempt_exam = 1, student = 11, start_time = 6, end_time = None,
           score = Some 80, is_completed = False, submitted_at = None\<rparr>"

definition store1 :: db where
  "store1 = \<lparr>courses = [course1], exams = [exam1, exam2], questions = [q1, q2, q7],
             choices = [ch1, ch2], attempts = [att1, att2, att3]\<rparr>"

definition exam_data1 :: exam_data where
  "exam_data1 = \<lparr>vd_title = ''Quiz'', vd_description = ''Extra'', vd_duration = 10,
                 vd_total_marks = 20, vd_passing_marks = 10, vd_start_time = 0,
                 vd_end_time = 100, vd_is_published = False, vd_course = course1\<rparr>"

text \<open>Four submitted attempts, three of them with a score of at least 50.\<close>

definition four_attempts :: "attempt list" where
  "four_attempts =
     [att2\<lparr>attempt_id := 4, score := Some 50\<rparr>, att2\<lparr>attempt_id := 5, score := Some 70\<rparr>,
      att2\<lparr>attempt_id := 6, score := Some 10\<rparr>, att2\<lparr>attempt_id := 7, score := Some 100\<rparr>]"

section \<open>Facts about the queries\<close>

lemmas fixtures = teacher1_def teacher2_def student1_def student2_def outsider_def course1_def
  exam1_def exam2_def q1_def q2_def q7_def ch1_def ch2_def att1_def att2_def att3_def store1_def
  exam_data1_def four_attempts_def

lemma find_filter_keeps:
  "find P xs = Some x \<Longrightarrow> Q x \<Longrightarrow> find P (filter Q xs) = Some x"
  by (induction xs) (auto split: if_splits)

lemma get_question_id: "get_question st pk = Some q \<Longrightarrow> question_id q = pk"
  by (auto simp: get_question_def find_Some_iff)

lemma get_exam_id: "get_exam st pk = Some e \<Longrightarrow> exam_id e = pk \<and> e \<in> set (exams st)"
  by (auto simp: get_exam_def find_Some_iff)

lemma get_question_None: "get_question st pk = None \<longleftrightarrow> pk \<notin> question_id ` set (questions st)"
  by (auto simp: get_question_def find_None_iff)

lemma those_resolve_Some:
  "those (map (\<lambda>(pk, t). map_option (\<lambda>q. (q, t)) (get_question st pk)) data) = Some v
   \<Longrightarrow> map (\<lambda>(q, t). (question_id q, t)) v = data"
proof (induction data arbitrary: v)
  case Nil
  then show ?case by simp
next
  case (Cons a data)
  obtain pk t where a: "a = (pk, t)" by (cases a)
  from Cons.prems a obtain q vs where
    q: "get_question st pk = Some q" and
    vs: "those (map (\<lambda>(pk, t). map_option (\<lambda>q. (q, t)) (get_question st pk)) data) = Some vs" and
    v: "v = (q, t) # vs"
    by (auto split: option.splits)
  from Cons.IH [OF vs] q v a show ?case
    by (simp add: get_question_id)
qed

lemma those_resolve_None:
  "those (map (\<lambda>(pk, t). map_option (\<lambda>q. (q, t)) (get_question st pk)) data) = None
   \<longleftrightarrow> \<not> list_all (\<lambda>(pk, t). get_question st pk \<noteq> None) data"
  by (induction data) (auto split: option.splits)

lemma to_internal_value_Inr:
  "to_internal_value st data = Inr v \<Longrightarrow> map (\<lambda>(q, t). (question_id q, t)) v = data"
  by (auto simp: to_internal_value_def those_resolve_Some split: option.splits)

lemma to_internal_value_resolved:
  "list_all (\<lambda>(pk, t). get_question st pk \<noteq> None) data \<Longrightarrow> \<exists>v. to_internal_value st data = Inr v"
  using those_resolve_None [of st data]
  by (auto simp: to_internal_value_def split: option.splits)

lemma to_internal_value_unresolved:
  "\<not> list_all (\<lambda>(pk, t). get_question st pk \<noteq> None) data \<Longrightarrow>
   to_internal_value st data =
     Inl (ValidationError (InvalidPk (map fst (filter (\<lambda>(pk, t). get_question st pk = None) data))))"
  using those_resolve_None [of st data]
  by (auto simp: to_internal_value_def split: option.splits)

lemma answered_ids:
  "map (\<lambda>(q, t). (question_id q, t)) v = data \<Longrightarrow> map (\<lambda>(q, t). question_id q) v = map fst data"
  by (induction v arbitrary: data) auto

lemma validate_equal_sets:
  "set (map (\<lambda>(q, t). question_id q) v) = set (map question_id (exam_questions st (attempt_exam att)))
   \<Longrightarrow> ExamSubmissionSerializer_validate st att v = Inr v"
  by (simp add: ExamSubmissionSerializer_validate_def)

lemma validate_other_sets:
  "set (map (\<lambda>(q, t). question_id q) v) \<noteq> set (map question_id (exam_questions st (attempt_exam att)))
   \<Longrightarrow> ExamSubmissionSerializer_validate st att v =
         Inl (ValidationError (NonField ''All questions must be answered.''))"
  by (simp add: ExamSubmissionSerializer_validate_def)

lemma is_valid_other_sets:
  assumes "set (map fst data) \<noteq> set (map question_id (exam_questions st (attempt_exam att)))"
  shows "is_valid st att data =
     Inl (ValidationError
       (if list_all (\<lambda>(k, t). get_question st k \<noteq> None) data
        then NonField ''All questions must be answered.''
        else InvalidPk (map fst (filter (\<lambda>(k, t). get_question st k = None) data))))"
proof (cases "list_all (\<lambda>(k, t). get_question st k \<noteq> None) data")
  case True
  then obtain v where v: "to_internal_value st data = Inr v"
    using to_internal_value_resolved by blast
  then have "map (\<lambda>(q, t). question_id q) v = map fst data"
    by (rule answered_ids [OF to_internal_value_Inr])
  with assms have "ExamSubmissionSerializer_validate st att v =
      Inl (ValidationError (NonField ''All questions must be answered.''))"
    by (simp add: validate_other_sets)
  with v True show ?thesis by (simp add: is_valid_def)
next
  case False
  then show ?thesis by (simp add: is_valid_def to_internal_value_unresolved)
qed

section \<open>Submitting an attempt\<close>

lemma create_keeps_store: "snd (ExamSubmissionView_create st u pk data) = st"
  by (simp add: ExamSubmissionView_create_def perform_create_def serializer_save_def
      split: option.splits sum.splits)

lemma create_never_created: "fst (ExamSubmissionView_create st u pk data) \<noteq> Response body 201"
  by (simp add: ExamSubmissionView_create_def perform_create_def serializer_save_def
      split: option.splits sum.splits)

lemma create_completed_rejected:
  "get_attempt st pk = Some att \<Longrightarrow> student att = user_id u \<Longrightarrow> is_completed att \<Longrightarrow>
   ExamSubmissionView_create st u pk data =
     (Response (JObj [(''detail'', JStr ''This exam attempt has already been completed.'')]) 400, st)"
  by (simp add: ExamSubmissionView_create_def)

text \<open>
  Claim C7. When the requesting user is not the student of the attempt, the submission
  view answers 403 with the ownership message, whatever the submitted answers are, and
  the store stays as it was. The attempt has to exist: the view reads it first.
\<close>

theorem submission_by_other_user_forbidden:
  assumes "get_attempt st pk = Some att" and "student att \<noteq> user_id u"
  shows "ExamSubmissionView_create st u pk data =
     (Response (JObj [(''detail'', JStr ''You can only submit your own exam attempts.'')]) 403, st)"
  using assms by (simp add: ExamSubmissionView_create_def)

text \<open>
  An instance: the second student submits to the first student's attempt.
\<close>

theorem submission_by_other_user_forbidden_witness:
  "get_attempt store1 1 = Some att1 \<and> student att1 \<noteq> user_id student2 \<and>
   ExamSubmissionView_create store1 student2 1 [(1, ''a''), (2, ''b'')] =
     (Response (JObj [(''detail'', JStr ''You can only submit your own exam attempts.'')]) 403, store1)"
proof -
  have a: "get_attempt store1 1 = Some att1"
    by (simp add: get_attempt_def store1_def att1_def)
  have b: "student att1 \<noteq> user_id student2"
    by (simp add: att1_def student2_def)
  from a b submission_by_other_user_forbidden [OF a b] show ?thesis by simp
qed

lemma create_other_sets:
  assumes "get_attempt st pk = Some att" and "student att = user_id u" and "\<not> is_completed att"
    and "set (map fst data) \<noteq> set (map question_id (exam_questions st (attempt_exam att)))"
  shows "ExamSubmissionView_create st u pk data =
     (Raise (ValidationError
        (if list_all (\<lambda>(k, t). get_question st k \<noteq> None) data
         then NonField ''All questions must be answered.''
         else InvalidPk (map fst (filter (\<lambda>(k, t). get_question st k = None) data)))), st)"
  using assms(1-3) is_valid_other_sets [OF assms(4)]
  by (simp add: ExamSubmissionView_create_def)

text \<open>
  Claim C3, as the code has it. For the owner of an attempt that is not completed, a
  submission whose set of question ids differs from the set of the exam's question ids
  raises a validation error and leaves the store unchanged. When every submitted id is
  the id of some question, the error is the fixed message of \<^verbatim>\<open>validate\<close>, which names
  no id; otherwise it is the field error of the ids that have no row.
\<close>

theorem submission_with_other_question_set_invalid:
  assumes "get_attempt st pk = Some att" and "student att = user_id u" and "\<not> is_completed att"
    and "set (map fst data) \<noteq> set (map question_id (exam_questions st (attempt_exam att)))"
  shows "ExamSubmissionView_create st u pk data =
     (Raise (ValidationError
        (if list_all (\<lambda>(k, t). get_question st k \<noteq> None) data
         then NonField ''All questions must be answered.''
         else InvalidPk (map fst (filter (\<lambda>(k, t). get_question st k = None) data)))), st)"
  using assms by (rule create_other_sets)

lemma store1_att1: "get_attempt store1 1 = Some att1"
  by (simp add: get_attempt_def store1_def att1_def)

lemma store1_exam1_question_ids: "set (map question_id (exam_questions store1 (attempt_exam att1))) = {1, 2}"
  by (auto simp: exam_questions_def fixtures)

text \<open>
  An instance: question 2 of the exam is not answered.
\<close>

theorem submission_with_other_question_set_invalid_witness:
  "ExamSubmissionView_create store1 student1 1 [(1, ''a'')] =
     (Raise (ValidationError (NonField ''All questions must be answered.'')), store1)"
proof -
  have b: "student att1 = user_id student1" by (simp add: att1_def student1_def)
  have c: "\<not> is_completed att1" by (simp add: att1_def)
  have d: "set (map fst [(1::nat, ''a'')]) \<noteq> set (map question_id (exam_questions store1 (attempt_exam att1)))"
    unfolding store1_exam1_question_ids by simp
  have e: "list_all (\<lambda>(k, t). get_question store1 k \<noteq> None) [(1::nat, ''a'')]"
    by (simp add: get_question_def fixtures)
  from submission_with_other_question_set_invalid [OF store1_att1 b c d] e show ?thesis by simp
qed

text \<open>
  Against claim C3 as stated: a submission that misses question 2 and a submission with
  the additional question 7 raise the same validation error, and its message holds no
  digit, so it lists neither id.
\<close>

theorem validation_error_lists_no_ids:
  "fst (ExamSubmissionView_create store1 student1 1 [(1, ''a'')]) =
     Raise (ValidationError (NonField ''All questions must be answered.'')) \<and>
   fst (ExamSubmissionView_create store1 student1 1 [(1, ''a''), (2, ''b''), (7, ''c'')]) =
     Raise (ValidationError (NonField ''All questions must be answered.'')) \<and>
   filter (\<lambda>c. c \<in> set ''0123456789'') ''All questions must be answered.'' = []"
proof -
  have b: "student att1 = user_id student1" by (simp add: att1_def student1_def)
  have c: "\<not> is_completed att1" by (simp add: att1_def)
  have d1: "set (map fst [(1::nat, ''a'')]) \<noteq> set (map question_id (exam_questions store1 (attempt_exam att1)))"
    unfolding store1_exam1_question_ids by simp
  have d2: "set (map fst [(1::nat, ''a''), (2, ''b''), (7, ''c'')]) \<noteq>
      set (map question_id (exam_questions store1 (attempt_exam att1)))"
    unfolding store1_exam1_question_ids by auto
  have e1: "list_all (\<lambda>(k, t). get_question store1 k \<noteq> None) [(1::nat, ''a'')]"
    by (simp add: get_question_def fixtures)
  have e2: "list_all (\<lambda>(k, t). get_question store1 k \<noteq> None) [(1::nat, ''a''), (2, ''b''), (7, ''c'')]"
    by (simp add: get_question_def fixtures)
  have "fst (ExamSubmissionView_create store1 student1 1 [(1, ''a'')]) =
     Raise (ValidationError (NonField ''All questions must be answered.''))"
    using create_other_sets [OF store1_att1 b c d1] e1 by simp
  moreover have "fst (ExamSubmissionView_create store1 student1 1 [(1, ''a''), (2, ''b''), (7, ''c'')]) =
     Raise (ValidationError (NonField ''All questions must be answered.''))"
    using create_other_sets [OF store1_att1 b c d2] e2 by simp
  moreover have "filter (\<lambda>c. c \<in> set ''0123456789'') ''All questions must be answered.'' = []"
    by simp
  ultimately show ?thesis by blast
qed

text \<open>
  Claim C10. Validation compares sets of ids: whenever the set of submitted question ids
  equals the set of the exam's question ids, the submission is valid and the validated
  answers are the submitted ones in the submitted order, repeated questions included.
\<close>

theorem duplicate_answers_pass_validation:
  assumes "set (map fst data) = set (map question_id (exam_questions st (attempt_exam att)))"
  shows "\<exists>v. is_valid st att data = Inr v \<and> map (\<lambda>(q, t). (question_id q, t)) v = data"
proof -
  have "list_all (\<lambda>(k, t). get_question st k \<noteq> None) data"
  proof -
    have "k \<in> question_id ` set (questions st)" if "k \<in> set (map fst data)" for k
      using that unfolding assms by (auto simp: exam_questions_def)
    then show ?thesis
      by (force simp: list_all_iff get_question_None)
  qed
  then obtain v where v: "to_internal_value st data = Inr v"
    using to_internal_value_resolved by blast
  have ids: "map (\<lambda>(q, t). (question_id q, t)) v = data"
    by (rule to_internal_value_Inr [OF v])
  then have "map (\<lambda>(q, t). question_id q) v = map fst data"
    by (rule answered_ids)
  with assms have "ExamSubmissionSerializer_validate st att v = Inr v"
    by (simp add: validate_equal_sets)
  with v ids show ?thesis by (simp add: is_valid_def)
qed

text \<open>
  An instance: two answers to question 1 and one answer to question 2.
\<close>

theorem duplicate_answers_pass_validation_witness:
  "\<exists>v. is_valid store1 att1 [(1, ''a''), (1, ''b''), (2, ''c'')] = Inr v \<and>
       map (\<lambda>(q, t). (question_id q, t)) v = [(1, ''a''), (1, ''b''), (2, ''c'')]"
proof -
  have "set (map fst [(1::nat, ''a''), (1, ''b''), (2, ''c'')]) =
        set (map question_id (exam_questions store1 (attempt_exam att1)))"
    unfolding store1_exam1_question_ids by simp
  from duplicate_answers_pass_validation [OF this] show ?thesis .
qed

text \<open>
  Claim C1, on the code. The owner submits a complete set of answers to an attempt in
  progress, twice. Both calls end in the \<^verbatim>\<open>NotImplementedError\<close> of \<^verbatim>\<open>save\<close>; the
  attempt is neither completed nor scored afterwards. The first call is not successful
  and the second one is not refused as already completed.
\<close>

theorem complete_submission_raises_twice:
  "(case ExamSubmissionView_create store1 student1 1 [(1, ''a''), (2, ''b'')] of
      (r1, s1) \<Rightarrow>
        (case ExamSubmissionView_create s1 student1 1 [(1, ''a''), (2, ''b'')] of
           (r2, s2) \<Rightarrow>
             r1 = Raise (NotImplementedError ''`create()` must be implemented.'') \<and>
             r2 = Raise (NotImplementedError ''`create()` must be implemented.'') \<and>
             s2 = store1 \<and>
             map_option is_completed (get_attempt s2 1) = Some False \<and>
             map_option score (get_attempt s2 1) = Some None))"
proof -
  have e: "ExamSubmissionView_create store1 student1 1 [(1, ''a''), (2, ''b'')]
      = (Raise (NotImplementedError ''`create()` must be implemented.''), store1)"
    by (simp add: ExamSubmissionView_create_def get_attempt_def is_valid_def to_internal_value_def
      ExamSubmissionSerializer_validate_def perform_create_def serializer_save_def get_question_def
      exam_questions_def fixtures)
  have a: "map_option is_completed (get_attempt store1 1) = Some False"
    by (simp add: get_attempt_def store1_def att1_def)
  have s: "map_option score (get_attempt store1 1) = Some None"
    by (simp add: get_attempt_def store1_def att1_def)
  show ?thesis
    unfolding e prod.case using a s by simp
qed

section \<open>Starting an attempt: enrolment\<close>

lemma start_attempt_outcome:
  assumes "get_exam st pk = Some ex" and "get_course st (exam_course ex) = Some c"
  shows "ExamAttemptView_perform_create st u pk now body_end_time =
     (if user_id u \<in> students c
      then Inr (st\<lparr>attempts := attempts st @ [new_attempt st u ex now body_end_time]\<rparr>)
      else Inl (AttributeError ''PermissionDenied''))"
  using assms by (simp add: ExamAttemptView_perform_create_def)

lemma start_attempt_never_permission_denied:
  "ExamAttemptView_perform_create st u pk now body_end_time \<noteq> Inl (PermissionDenied msg)"
  by (simp add: ExamAttemptView_perform_create_def split: option.splits)

lemma new_attempt_in_progress:
  "student (new_attempt st u ex now body_end_time) = user_id u \<and>
   attempt_exam (new_attempt st u ex now body_end_time) = exam_id ex \<and>
   start_time (new_attempt st u ex now body_end_time) = now \<and>
   end_time (new_attempt st u ex now body_end_time) = body_end_time \<and>
   \<not> is_completed (new_attempt st u ex now body_end_time) \<and>
   score (new_attempt st u ex now body_end_time) = None \<and>
   submitted_at (new_attempt st u ex now body_end_time) = None"
  by (simp add: new_attempt_def)

lemma store1_exam1: "get_exam store1 1 = Some exam1"
  by (simp add: get_exam_def store1_def exam1_def)

lemma store1_exam2: "get_exam store1 2 = Some exam2"
  by (simp add: get_exam_def store1_def exam1_def exam2_def)

lemma store1_course_of_exam1: "get_course store1 (exam_course exam1) = Some course1"
  by (simp add: get_course_def store1_def exam1_def course1_def)

lemma store1_course_of_exam2: "get_course store1 (exam_course exam2) = Some course1"
  by (simp add: get_course_def store1_def exam2_def course1_def)

text \<open>
  Claim C6, on the code. A student who is not enrolled in the course of exam 1 starts an
  attempt: the view raises \<^verbatim>\<open>AttributeError\<close>, not \<^verbatim>\<open>PermissionDenied\<close>, because the
  exception is looked up in the module \<^verbatim>\<open>permissions\<close>. For an enrolled student the view
  appends one attempt, the student's, for this exam, not completed and with no score.
\<close>

theorem unenrolled_start_raises_attribute_error:
  "ExamAttemptView_perform_create store1 outsider 1 42 None = Inl (AttributeError ''PermissionDenied'') \<and>
   ExamAttemptView_perform_create store1 student1 1 42 None =
     Inr (store1\<lparr>attempts := attempts store1 @ [new_attempt store1 student1 exam1 42 None]\<rparr>) \<and>
   student (new_attempt store1 student1 exam1 42 None) = 10 \<and>
   attempt_exam (new_attempt store1 student1 exam1 42 None) = 1 \<and>
   \<not> is_completed (new_attempt store1 student1 exam1 42 None) \<and>
   score (new_attempt store1 student1 exam1 42 None) = None"
proof -
  have out: "user_id outsider \<notin> students course1"
    by (simp add: outsider_def course1_def)
  have inn: "user_id student1 \<in> students course1"
    by (simp add: student1_def course1_def)
  have "ExamAttemptView_perform_create store1 outsider 1 42 None = Inl (AttributeError ''PermissionDenied'')"
    using start_attempt_outcome [OF store1_exam1 store1_course_of_exam1, of outsider 42 None] out
    by simp
  moreover have "ExamAttemptView_perform_create store1 student1 1 42 None =
     Inr (store1\<lparr>attempts := attempts store1 @ [new_attempt store1 student1 exam1 42 None]\<rparr>)"
    using start_attempt_outcome [OF store1_exam1 store1_course_of_exam1, of student1 42 None] inn
    by simp
  moreover have "student (new_attempt store1 student1 exam1 42 None) = 10 \<and>
      attempt_exam (new_attempt store1 student1 exam1 42 None) = 1"
    by (simp add: new_attempt_def student1_def exam1_def)
  ultimately show ?thesis
    using new_attempt_in_progress [of store1 student1 exam1 42 None] by blast
qed

section \<open>Analytics of an exam\<close>

lemma Avg_Nil: "Avg [] = None"
  by (simp add: Avg_def)

text \<open>
  Claim C8. For the teacher who is the instructor of the exam's course, the analytics of
  an exam none of whose attempts is submitted (in particular an exam without attempts)
  are a 200 response with 0 completed attempts, average score 0 and passing rate 0: the
  quotient is not evaluated.
\<close>

theorem analytics_without_completed_attempts:
  assumes "get_exam st pk = Some ex" and "user_type u = ''teacher''"
    and "get_course st (exam_course ex) = Some c" and "instructor c = user_id u"
    and "submitted (exam_attempts st ex) = []"
  shows "StaffExamAnalyticsView_get st u pk =
     Response (JObj [(''total_attempts'', JInt (int (length (exam_attempts st ex)))),
                     (''completed_attempts'', JInt 0),
                     (''average_score'', JInt 0),
                     (''passing_rate'', JInt 0)]) 200"
  using assms
  by (simp add: StaffExamAnalyticsView_get_def analytics_def average_score_def passing_rate_def Avg_Nil)

text \<open>
  An instance: the second exam of the example store has no attempt.
\<close>

theorem analytics_without_completed_attempts_witness:
  "StaffExamAnalyticsView_get store1 teacher1 2 =
     Response (JObj [(''total_attempts'', JInt 0),
                     (''completed_attempts'', JInt 0),
                     (''average_score'', JInt 0),
                     (''passing_rate'', JInt 0)]) 200"
proof -
  have t: "user_type teacher1 = ''teacher''" by (simp add: teacher1_def)
  have i: "instructor course1 = user_id teacher1" by (simp add: course1_def teacher1_def)
  have n: "exam_attempts store1 exam2 = []"
    by (simp add: exam_attempts_def store1_def exam2_def att1_def att2_def att3_def)
  have s: "submitted (exam_attempts store1 exam2) = []"
    by (simp add: n submitted_def)
  from analytics_without_completed_attempts [OF store1_exam2 t store1_course_of_exam2 i s] n
  show ?thesis by simp
qed

text \<open>
  The passing rate of the view and the passing rate of the specification agree on every
  list of attempts in which only submitted attempts hold a score.
\<close>

lemma passing_rate_agrees:
  assumes "\<And>a. a \<in> set atts \<Longrightarrow> score a \<noteq> None \<Longrightarrow> submitted_at a \<noteq> None"
  shows "passing_rate ex atts = passing_rate_spec ex atts"
proof -
  have "filter (score_gte (passing_marks ex)) (submitted atts) =
      filter (\<lambda>a. submitted_at a \<noteq> None \<and> score_gte (passing_marks ex) a) atts"
    by (simp add: submitted_def)
  also have "\<dots> = filter (score_gte (passing_marks ex)) atts"
    by (rule filter_cong) (use assms in \<open>auto simp: score_gte_def split: option.splits\<close>)
  finally show ?thesis
    by (simp add: passing_rate_def passing_rate_spec_def Let_def)
qed

text \<open>
  The example of the specification: four submitted attempts, three of them passing.
\<close>

lemma passing_rate_four_attempts: "passing_rate exam1 four_attempts = JFloat 75"
  by (simp add: passing_rate_def submitted_def score_gte_def four_attempts_def att2_def exam1_def)

lemma passing_rate_spec_four_attempts: "passing_rate_spec exam1 four_attempts = JFloat 75"
  by (simp add: passing_rate_spec_def submitted_def score_gte_def four_attempts_def att2_def exam1_def)

lemma store1_exam1_attempts: "exam_attempts store1 exam1 = [att1, att2, att3]"
  by (simp add: exam_attempts_def store1_def exam1_def att1_def att2_def att3_def)

text \<open>
  Claim C2, on the code. The numerator of the passing rate counts every attempt of the
  exam whose score reaches the passing marks; the filter on \<^verbatim>\<open>submitted_at\<close> that the
  two other figures use is not applied to it. With one submitted attempt below the
  passing marks and one attempt never submitted that holds a score of 80, the view
  reports a passing rate of 100, where the specification's quotient is 0.
\<close>

theorem passing_rate_counts_unsubmitted_scores:
  "StaffExamAnalyticsView_get store1 teacher1 1 =
     Response (JObj [(''total_attempts'', JInt 3),
                     (''completed_attempts'', JInt 1),
                     (''average_score'', JFloat 10),
                     (''passing_rate'', JFloat 100)]) 200 \<and>
   passing_rate_spec exam1 (exam_attempts store1 exam1) = JFloat 0"
proof -
  have s: "submitted [att1, att2, att3] = [att2]"
    by (simp add: submitted_def att1_def att2_def att3_def)
  have p: "filter (score_gte (passing_marks exam1)) [att1, att2, att3] = [att3]"
    by (simp add: score_gte_def exam1_def att1_def att2_def att3_def)
  have p': "filter (score_gte (passing_marks exam1)) [att2] = []"
    by (simp add: score_gte_def exam1_def att2_def)
  have a: "Avg [att2] = Some 10"
    by (simp add: Avg_def List.map_filter_simps att2_def)
  have "analytics exam1 [att1, att2, att3] =
      JObj [(''total_attempts'', JInt 3), (''completed_attempts'', JInt 1),
            (''average_score'', JFloat 10), (''passing_rate'', JFloat 100)]"
    unfolding analytics_def average_score_def passing_rate_def s p a by simp
  moreover have "passing_rate_spec exam1 [att1, att2, att3] = JFloat 0"
    unfolding passing_rate_spec_def s Let_def p' by simp
  moreover have "StaffExamAnalyticsView_get store1 teacher1 1 =
      Response (analytics exam1 (exam_attempts store1 exam1)) 200"
    using store1_exam1 store1_course_of_exam1
    by (simp add: StaffExamAnalyticsView_get_def teacher1_def course1_def)
  ultimately show ?thesis
    by (simp add: store1_exam1_attempts)
qed

section \<open>Who may create an exam\<close>

text \<open>
  \<^verbatim>\<open>StaffExamCreateView\<close> saves only for a teacher who is the instructor of the course.
\<close>

lemma staff_create_guarded:
  assumes "StaffExamCreateView_perform_create st u course v = Inr st'"
  shows "\<exists>cid c. course = Some cid \<and> get_course st cid = Some c \<and> canManageExam_spec u c \<and>
           st' = save_exam st (course_id c) v"
  using assms
  by (auto simp: StaffExamCreateView_perform_create_def canManageExam_spec_def
      split: if_splits option.splits)

lemma list_create_checks_instructor_only:
  "ExamListView_perform_create st u v = Inr st' \<longleftrightarrow>
     instructor (vd_course v) = user_id u \<and> st' = save_exam st (course_id (vd_course v)) v"
  by (auto simp: ExamListView_perform_create_def)

lemma create_view_checks_role_only:
  "ExamCreateView_perform_create st u cid v = Inr st' \<longleftrightarrow>
     user_type u = ''teacher'' \<and> get_course st cid \<noteq> None \<and> st' = save_exam st cid v"
  by (auto simp: ExamCreateView_perform_create_def)

text \<open>
  Claim C4, on the code. \<^verbatim>\<open>ExamCreateView\<close> checks the role and not the instructor: a
  teacher who is not the instructor of course 1 creates an exam in it.
  \<^verbatim>\<open>ExamListView\<close> checks the instructor and not the role: the instructor's account with
  another user type creates an exam as well. Neither user satisfies the predicate of the
  specification.
\<close>

theorem teacher_creates_exam_in_foreign_course:
  "get_course store1 1 = Some course1 \<and>
   \<not> canManageExam_spec teacher2 course1 \<and>
   ExamCreateView_perform_create store1 teacher2 1 exam_data1 = Inr (save_exam store1 1 exam_data1) \<and>
   map exam_course (exams (save_exam store1 1 exam_data1)) = [1, 1, 1] \<and>
   \<not> canManageExam_spec (teacher1\<lparr>user_type := ''student''\<rparr>) course1 \<and>
   ExamListView_perform_create store1 (teacher1\<lparr>user_type := ''student''\<rparr>) exam_data1 =
     Inr (save_exam store1 1 exam_data1)"
proof -
  have c: "get_course store1 1 = Some course1"
    by (simp add: get_course_def store1_def course1_def)
  have "\<not> canManageExam_spec teacher2 course1"
    by (simp add: canManageExam_spec_def teacher2_def course1_def)
  moreover have "ExamCreateView_perform_create store1 teacher2 1 exam_data1 =
      Inr (save_exam store1 1 exam_data1)"
    unfolding ExamCreateView_perform_create_def c by (simp add: teacher2_def)
  moreover have "map exam_course (exams (save_exam store1 1 exam_data1)) = [1, 1, 1]"
    by (simp add: save_exam_def exam_of_def store1_def exam1_def exam2_def)
  moreover have "\<not> canManageExam_spec (teacher1\<lparr>user_type := ''student''\<rparr>) course1"
    by (simp add: canManageExam_spec_def)
  moreover have "ExamListView_perform_create store1 (teacher1\<lparr>user_type := ''student''\<rparr>) exam_data1 =
     Inr (save_exam store1 1 exam_data1)"
    by (simp add: ExamListView_perform_create_def exam_data1_def course1_def teacher1_def)
  ultimately show ?thesis using c by blast
qed

section \<open>What a student reads of an exam\<close>

lemma json_get_ChoiceSerializer:
  "json_get ''is_correct'' (ChoiceSerializer ch) = Some (JBool (is_correct ch))"
  by (simp add: json_get_def ChoiceSerializer_def)

lemma json_get_QuestionSerializer:
  "json_get ''choices'' (QuestionSerializer st q) =
     Some (JList (map ChoiceSerializer (question_choices st (question_id q))))"
  by (simp add: json_get_def QuestionSerializer_def)

lemma json_get_ExamSerializer:
  "json_get ''questions'' (ExamSerializer cs st e) =
     Some (JList (map (QuestionSerializer st) (exam_questions st (exam_id e))))"
  by (simp add: json_get_def ExamSerializer_def)

text \<open>
  Claim C9. For an authenticated student among the students of an exam's course,
  retrieving the exam answers 200 with the serialized exam, and the exam is in the
  queryset that the list view serializes (the list is modelled without pagination). The
  serialized exam holds its questions under \<^verbatim>\<open>questions\<close>, each question holds its
  choices under \<^verbatim>\<open>choices\<close>, and each choice holds its own correctness flag under
  \<^verbatim>\<open>is_correct\<close>.
\<close>

theorem enrolled_student_sees_is_correct:
  assumes "is_authenticated u" and "user_type u = ''student''"
    and "get_exam st pk = Some e" and "get_course st (exam_course e) = Some c"
    and "user_id u \<in> students c"
  shows "ExamDetailView_retrieve cs st u pk = Response (ExamSerializer cs st e) 200 \<and>
         ExamListView_list cs st u =
           Response (JList (map (ExamSerializer cs st) (ExamListView_get_queryset st u))) 200 \<and>
         e \<in> set (ExamListView_get_queryset st u) \<and>
         json_get ''questions'' (ExamSerializer cs st e) =
           Some (JList (map (QuestionSerializer st) (exam_questions st (exam_id e)))) \<and>
         (\<forall>q. json_get ''choices'' (QuestionSerializer st q) =
                Some (JList (map ChoiceSerializer (question_choices st (question_id q))))) \<and>
         (\<forall>ch. json_get ''is_correct'' (ChoiceSerializer ch) = Some (JBool (is_correct ch)))"
proof -
  have enrolled: "course_students_has st u e"
    using assms(4,5) by (simp add: course_students_has_def)
  have mem: "e \<in> set (exams st)"
    using assms(3) by (simp add: get_exam_id)
  have "find (\<lambda>x. exam_id x = pk) (filter (course_students_has st u) (exams st)) = Some e"
    using assms(3) enrolled unfolding get_exam_def by (rule find_filter_keeps)
  then have "ExamDetailView_retrieve cs st u pk = Response (ExamSerializer cs st e) 200"
    using assms(2) by (simp add: ExamDetailView_retrieve_def ExamDetailView_get_queryset_def)
  moreover have "e \<in> set (ExamListView_get_queryset st u)"
    using assms(1,2) enrolled mem by (simp add: ExamListView_get_queryset_def)
  ultimately show ?thesis
    by (simp add: ExamListView_list_def json_get_ChoiceSerializer json_get_QuestionSerializer
        json_get_ExamSerializer)
qed

text \<open>
  An instance: the first student reads the first exam, whose first question has a correct
  and an incorrect choice.
\<close>

theorem enrolled_student_sees_is_correct_witness:
  "ExamDetailView_retrieve (\<lambda>c. JInt (int (course_id c))) store1 student1 1 =
     Response (ExamSerializer (\<lambda>c. JInt (int (course_id c))) store1 exam1) 200 \<and>
   exam1 \<in> set (ExamListView_get_queryset store1 student1) \<and>
   exam_questions store1 (exam_id exam1) = [q1, q2] \<and>
   question_choices store1 (question_id q1) = [ch1, ch2] \<and>
   json_get ''is_correct'' (ChoiceSerializer ch1) = Some (JBool True) \<and>
   json_get ''is_correct'' (ChoiceSerializer ch2) = Some (JBool False)"
proof -
  have a: "is_authenticated student1" by (simp add: student1_def)
  have t: "user_type student1 = ''student''" by (simp add: student1_def)
  have m: "user_id student1 \<in> students course1" by (simp add: student1_def course1_def)
  have qs: "exam_questions store1 (exam_id exam1) = [q1, q2]"
    by (simp add: exam_questions_def store1_def exam1_def q1_def q2_def q7_def)
  have chs: "question_choices store1 (question_id q1) = [ch1, ch2]"
    by (simp add: question_choices_def store1_def q1_def ch1_def ch2_def)
  have c1: "is_correct ch1" and c2: "\<not> is_correct ch2"
    by (simp_all add: ch1_def ch2_def)
  from enrolled_student_sees_is_correct [OF a t store1_exam1 store1_course_of_exam1 m,
      of "\<lambda>c. JInt (int (course_id c))"] qs chs c1 c2
  show ?thesis by simp
qed

end
